theory Spec2Isabelle
  imports Main
begin

section \<open>Common JavaScript notions\<close>

text \<open>
  An optional string prop (\<open>undefined | string\<close>) is a \<open>string option\<close>. In a condition
  JavaScript takes \<open>undefined\<close> and the empty string as false, every other string as true.
\<close>

fun truthy_string :: "string option \<Rightarrow> bool" where
  "truthy_string None = False"
| "truthy_string (Some s) = (s \<noteq> [])"

text \<open>An optional boolean prop is true in a condition only when it is present and true.\<close>

fun truthy_bool :: "bool option \<Rightarrow> bool" where
  "truthy_bool None = False"
| "truthy_bool (Some b) = b"

text \<open>The localizer \<open>i18n\<close> is supplied from outside: a function from message keys to text.\<close>

type_synonym LocalizerType = "string \<Rightarrow> string"

section \<open>EditConversationAttributesModal.tsx\<close>

subsection \<open>Data\<close>

text \<open>An \<open>ArrayBuffer\<close> is its sequence of bytes; \<open>new ArrayBuffer(0)\<close> is the empty one.\<close>

type_synonym ArrayBuffer = "nat list"

definition TEMPORARY_AVATAR_VALUE :: ArrayBuffer where
  "TEMPORARY_AVATAR_VALUE = []"

datatype RequestState = Inactive | InactiveWithError | Active

text \<open>
  The props, under the names the component binds them to. The callbacks \<open>makeRequest\<close> and
  \<open>onClose\<close> are effects: calls to them are recorded in the result of the handler that
  makes them.
\<close>

record PropsType =
  externalAvatarPath :: "string option"
  requestState :: RequestState
  externalTitle :: string

text \<open>
  What one mounted instance holds between renders: the two refs, filled at the first
  render and never written again, and the three \<open>useState\<close> cells.
\<close>

record EditState =
  startingTitleRef :: string
  startingAvatarPathRef :: "string option"
  avatar :: "ArrayBuffer option"
  title :: string
  hasAvatarChanged :: bool

definition initialState :: "PropsType \<Rightarrow> EditState" where
  "initialState p =
     \<lparr> startingTitleRef = externalTitle p,
       startingAvatarPathRef = externalAvatarPath p,
       avatar = (if truthy_string (externalAvatarPath p)
                 then Some TEMPORARY_AVATAR_VALUE else None),
       title = externalTitle p,
       hasAvatarChanged = False \<rparr>"

subsection \<open>Values derived at each render\<close>

definition hasChangedExternally :: "PropsType \<Rightarrow> EditState \<Rightarrow> bool" where
  "hasChangedExternally p s \<longleftrightarrow>
     startingAvatarPathRef s \<noteq> externalAvatarPath p \<or>
     startingTitleRef s \<noteq> externalTitle p"

definition hasTitleChanged :: "PropsType \<Rightarrow> EditState \<Rightarrow> bool" where
  "hasTitleChanged p s \<longleftrightarrow> title s \<noteq> externalTitle p"

definition isRequestActive :: "PropsType \<Rightarrow> bool" where
  "isRequestActive p \<longleftrightarrow> requestState p = Active"

definition canSubmit :: "PropsType \<Rightarrow> EditState \<Rightarrow> bool" where
  "canSubmit p s \<longleftrightarrow>
     \<not> isRequestActive p \<and>
     (hasChangedExternally p s \<or> hasTitleChanged p s \<or> hasAvatarChanged s) \<and>
     length (title s) > 0"

subsection \<open>The rendered form\<close>

datatype SubmitChild = Spinner | Label string

record FormView =
  closeButtonDisabled :: bool
  avatarInputDisabled :: bool
  avatarInputValue :: "ArrayBuffer option"
  titleInputDisabled :: bool
  titleInputValue :: string
  errorMessage :: "string option"
  cancelButtonDisabled :: bool
  submitButtonDisabled :: bool
  submitButtonChild :: SubmitChild

definition EditConversationAttributesModal ::
  "LocalizerType \<Rightarrow> PropsType \<Rightarrow> EditState \<Rightarrow> FormView" where
  "EditConversationAttributesModal i18n p s =
     \<lparr> closeButtonDisabled = isRequestActive p,
       avatarInputDisabled = isRequestActive p,
       avatarInputValue = avatar s,
       titleInputDisabled = isRequestActive p,
       titleInputValue = title s,
       errorMessage = (if requestState p = InactiveWithError
                       then Some (i18n ''updateGroupAttributes__error-message'') else None),
       cancelButtonDisabled = isRequestActive p,
       submitButtonDisabled = (\<not> canSubmit p s),
       submitButtonChild = (if isRequestActive p then Spinner else Label (i18n ''save'')) \<rparr>"

subsection \<open>Handlers\<close>

text \<open>
  The request object starts as \<open>{}\<close>. A field that was assigned is present, also when the
  value assigned is \<open>undefined\<close> (an avatar that was cleared): the outer option of
  \<open>request_avatar\<close> is the presence of the key, the inner one its value.
\<close>

record Request =
  request_avatar :: "ArrayBuffer option option"
  request_title :: "string option"

definition emptyRequest :: Request where
  "emptyRequest = \<lparr> request_avatar = None, request_title = None \<rparr>"

record FormEvent =
  defaultPrevented :: bool

definition preventDefault :: "FormEvent \<Rightarrow> FormEvent" where
  "preventDefault ev = ev\<lparr> defaultPrevented := True \<rparr>"

definition buildRequest :: "PropsType \<Rightarrow> EditState \<Rightarrow> Request" where
  "buildRequest p s =
     (let request = emptyRequest;
          request = (if hasAvatarChanged s
                     then request\<lparr> request_avatar := Some (avatar s) \<rparr> else request);
          request = (if hasTitleChanged p s
                     then request\<lparr> request_title := Some (title s) \<rparr> else request)
      in request)"

text \<open>
  \<open>onSubmit\<close> returns the event after the handler ran and the calls it made to
  \<open>makeRequest\<close>, in order, each with its argument.
\<close>

definition onSubmit :: "PropsType \<Rightarrow> EditState \<Rightarrow> FormEvent \<Rightarrow> FormEvent \<times> Request list" where
  "onSubmit p s ev = (preventDefault ev, [buildRequest p s])"

text \<open>The \<open>onChange\<close> of the avatar input and the \<open>onChangeValue\<close> of the title input.\<close>

definition onAvatarChange :: "ArrayBuffer option \<Rightarrow> EditState \<Rightarrow> EditState" where
  "onAvatarChange newAvatar s = s\<lparr> avatar := newAvatar, hasAvatarChanged := True \<rparr>"

definition setTitle :: "string \<Rightarrow> EditState \<Rightarrow> EditState" where
  "setTitle newTitle s = s\<lparr> title := newTitle \<rparr>"

subsection \<open>Resolving the starting avatar\<close>

text \<open>
  \<open>imagePathToArrayBuffer\<close> works on the document: it needs a 2d context of a new canvas,
  decodes the image at the path, draws it and hands the canvas to \<open>canvasToArrayBuffer\<close>
  (of \<open>util/canvasToArrayBuffer\<close>). What the document answers is a parameter. Every
  value thrown or rejected on this path is an error object with a message.
\<close>

datatype JsError = Error (message: string)

record Canvas =
  canvas_width :: nat
  canvas_height :: nat
  canvas_image :: "string option"

record Document =
  getContext2d :: bool
  decode :: "string \<Rightarrow> JsError + nat \<times> nat"
  canvasToArrayBuffer :: "Canvas \<Rightarrow> JsError + ArrayBuffer"

definition imagePathToArrayBuffer :: "Document \<Rightarrow> string \<Rightarrow> JsError + ArrayBuffer" where
  "imagePathToArrayBuffer doc src =
     (if \<not> getContext2d doc
      then Inl (Error ''imagePathToArrayBuffer: could not get canvas rendering context'')
      else case decode doc src of
             Inl err \<Rightarrow> Inl err
           | Inr (w, h) \<Rightarrow>
               canvasToArrayBuffer doc
                 \<lparr> canvas_width = w, canvas_height = h, canvas_image = Some src \<rparr>)"

text \<open>
  The effect that runs once after mount. Without a starting avatar path it does nothing
  and its cleanup is \<open>noop\<close>. Otherwise it declares \<open>shouldCancel = false\<close>, starts the
  asynchronous resolution and returns a cleanup that sets \<open>shouldCancel\<close>.
\<close>

datatype EffectClosure = Noop | Resolving (shouldCancel: bool)

text \<open>Calls the asynchronous task makes, as a spy on \<open>setAvatar\<close> and \<open>log.warn\<close> sees them.\<close>

datatype TaskCall = SetAvatar ArrayBuffer | LogWarn string

record Instance =
  state :: EditState
  closure :: EffectClosure
  pending :: "string option"
  calls :: "TaskCall list"

definition mount :: "PropsType \<Rightarrow> Instance" where
  "mount p =
     (let s = initialState p; startingAvatarPath = startingAvatarPathRef s in
      if \<not> truthy_string startingAvatarPath
      then \<lparr> state = s, closure = Noop, pending = None, calls = [] \<rparr>
      else \<lparr> state = s, closure = Resolving False, pending = startingAvatarPath,
             calls = [] \<rparr>)"

text \<open>Teardown runs the cleanup the effect returned.\<close>

definition unmount :: "Instance \<Rightarrow> Instance" where
  "unmount i =
     (case closure i of
        Noop \<Rightarrow> i
      | Resolving c \<Rightarrow> i\<lparr> closure := Resolving True \<rparr>)"

definition warning :: "JsError \<Rightarrow> string" where
  "warning err =
     ''Failed to convert image URL to array buffer. Error message: '' @ message err"

text \<open>
  The step in which the awaited resolution settles: the rest of the \<open>try\<close> block when it
  fulfils, the \<open>catch\<close> block when it rejects. The asynchronous function ends normally in
  both, so nothing is thrown to anyone. With nothing in flight there is no such step.
\<close>

definition settle :: "Document \<Rightarrow> Instance \<Rightarrow> Instance" where
  "settle doc i =
     (case pending i of
        None \<Rightarrow> i
      | Some startingAvatarPath \<Rightarrow>
          (case imagePathToArrayBuffer doc startingAvatarPath of
             Inr buffer \<Rightarrow>
               (if closure i = Resolving True
                then i\<lparr> pending := None \<rparr>
                else i\<lparr> state := (state i)\<lparr> avatar := Some buffer \<rparr>,
                        calls := calls i @ [SetAvatar buffer],
                        pending := None \<rparr>)
           | Inl err \<Rightarrow>
               i\<lparr> calls := calls i @ [LogWarn (warning err)], pending := None \<rparr>))"

text \<open>What can happen to a mounted instance, and a whole execution from mount on.\<close>

datatype Action =
    AvatarChange "ArrayBuffer option"
  | TitleChange string
  | Unmount
  | Settle

fun step :: "Document \<Rightarrow> Instance \<Rightarrow> Action \<Rightarrow> Instance" where
  "step doc i (AvatarChange newAvatar) = i\<lparr> state := onAvatarChange newAvatar (state i) \<rparr>"
| "step doc i (TitleChange newTitle) = i\<lparr> state := setTitle newTitle (state i) \<rparr>"
| "step doc i Unmount = unmount i"
| "step doc i Settle = settle doc i"

definition run :: "Document \<Rightarrow> PropsType \<Rightarrow> Action list \<Rightarrow> Instance" where
  "run doc p as = foldl (step doc) (mount p) as"

section \<open>StoryViewsNRepliesModal.tsx\<close>

subsection \<open>Data\<close>

datatype Tab = Replies | Views

text \<open>
  The conversation fields that a reply carries for its sender and a view for its
  recipient (\<open>ReplyType\<close> and \<open>StorySendStateType\<close> of \<open>types/Stories\<close>), as far as the
  component reads them. Optional fields are options.
\<close>

record ConversationFields =
  acceptedMessageRequest :: "bool option"
  avatarPath :: "string option"
  color :: "string option"
  isMe :: "bool option"
  name :: "string option"
  profileName :: "string option"
  sharedGroupNames :: "string list option"
  conversation_title :: string

record ReplyType = ConversationFields +
  reply_id :: string
  reply_body :: "string option"
  contactNameColor :: "string option"
  deletedForEveryone :: "bool option"
  reactionEmoji :: "string option"
  reply_timestamp :: nat

record Recipient = ConversationFields +
  recipient_id :: string

record StorySendStateType =
  recipient :: Recipient
  updatedAt :: "nat option"

text \<open>An attachment is only passed on to the quote; it is named here by its path.\<close>

type_synonym AttachmentType = string

text \<open>
  The props that decide what is rendered. The emoji settings (\<open>preferredReactionEmoji\<close>,
  \<open>recentEmojis\<close>, \<open>skinTone\<close>, \<open>renderEmojiPicker\<close>, \<open>getPreferredBadge\<close>) are handed
  unchanged to the emoji button and the reaction picker and are left out; the callbacks
  are effects, recorded as calls.
\<close>

record StoryProps =
  authorTitle :: string
  canReply :: bool
  isGroupStory :: "bool option"
  isMyStory :: "bool option"
  replies :: "ReplyType list"
  storyPreviewAttachment :: "AttachmentType option"
  views :: "StorySendStateType list"

text \<open>
  The component's own state: whether \<open>inputApiRef.current\<close> holds the input API of the
  composition input, the draft text and whether the reaction picker is open.
\<close>

record StoryState =
  inputApiRef :: bool
  messageBodyText :: string
  showReactionPicker :: bool

text \<open>Functions of other modules that the component calls while rendering.\<close>

record Externals =
  i18n :: LocalizerType
  getAvatarColor :: "string option \<Rightarrow> string"
  getStoryReplyText :: "LocalizerType \<Rightarrow> AttachmentType option \<Rightarrow> string"

subsection \<open>Handlers\<close>

record EmojiPickDataType =
  shortName :: string
  skinTone :: "nat option"

type_synonym BodyRangeType = "nat \<times> nat \<times> string"

text \<open>
  Calls a handler makes, in order: on the input API held by the ref, and on the callbacks
  \<open>onUseEmoji\<close>, \<open>onReply\<close> and \<open>onReact\<close> of the props.
\<close>

datatype StoryCall =
    InputApi_focus
  | InputApi_insertEmoji EmojiPickDataType
  | InputApi_reset
  | OnUseEmoji EmojiPickDataType
  | OnReply string "BodyRangeType list" nat
  | OnReact string

definition focusComposer :: "StoryState \<Rightarrow> StoryCall list" where
  "focusComposer s = (if inputApiRef s then [InputApi_focus] else [])"

definition insertEmoji :: "StoryState \<Rightarrow> EmojiPickDataType \<Rightarrow> StoryCall list" where
  "insertEmoji s e = (if inputApiRef s then [InputApi_insertEmoji e, OnUseEmoji e] else [])"

definition composerOnSubmit ::
  "StoryState \<Rightarrow> string \<Rightarrow> BodyRangeType list \<Rightarrow> nat \<Rightarrow> StoryCall list" where
  "composerOnSubmit s messageText mentions timestamp =
     (if inputApiRef s then [InputApi_reset] else []) @ [OnReply messageText mentions timestamp]"

definition onEditorStateChange :: "string \<Rightarrow> StoryState \<Rightarrow> StoryState" where
  "onEditorStateChange messageText s = s\<lparr> messageBodyText := messageText \<rparr>"

definition reactButtonOnClick :: "StoryState \<Rightarrow> StoryState" where
  "reactButtonOnClick s = s\<lparr> showReactionPicker := \<not> showReactionPicker s \<rparr>"

definition reactionPickerOnClose :: "StoryState \<Rightarrow> StoryState" where
  "reactionPickerOnClose s = s\<lparr> showReactionPicker := False \<rparr>"

definition reactionPickerOnPick :: "StoryState \<Rightarrow> string \<Rightarrow> StoryState \<times> StoryCall list" where
  "reactionPickerOnPick s emoji = (s\<lparr> showReactionPicker := False \<rparr>, [OnReact emoji])"

subsection \<open>Elements\<close>

record AvatarEl =
  avatar_acceptedMessageRequest :: "bool option"
  avatar_avatarPath :: "string option"
  avatar_color :: string
  avatar_isMe :: bool
  avatar_name :: "string option"
  avatar_profileName :: "string option"
  avatar_sharedGroupNames :: "string list"
  avatar_title :: string

definition Avatar :: "Externals \<Rightarrow> 'a ConversationFields_scheme \<Rightarrow> AvatarEl" where
  "Avatar ext c =
     \<lparr> avatar_acceptedMessageRequest = acceptedMessageRequest c,
       avatar_avatarPath = avatarPath c,
       avatar_color = getAvatarColor ext (color c),
       avatar_isMe = truthy_bool (isMe c),
       avatar_name = name c,
       avatar_profileName = profileName c,
       avatar_sharedGroupNames = (case sharedGroupNames c of None \<Rightarrow> [] | Some ns \<Rightarrow> ns),
       avatar_title = conversation_title c \<rparr>"

text \<open>A reaction row: avatar, contact name, the "reacted" label, a relative timestamp, the emoji.\<close>

record ReactionEl =
  reaction_key :: string
  reaction_avatar :: AvatarEl
  reaction_contactNameColor :: "string option"
  reaction_contactName :: string
  reaction_label :: string
  reaction_timestamp :: nat
  reaction_emoji :: string

text \<open>
  A message row: avatar, a bubble with contact name, body text and timestamp;
  \<open>message_doe\<close> is the class \<open>StoryViewsNRepliesModal__message-bubble--doe\<close> on the bubble.
\<close>

record MessageEl =
  message_key :: string
  message_avatar :: AvatarEl
  message_doe :: bool
  message_contactNameColor :: "string option"
  message_contactName :: string
  message_text :: string
  message_timestamp :: nat

datatype ReplyRow = Reaction ReactionEl | Message MessageEl

text \<open>
  In a view row, \<open>view.updatedAt && <MessageTimestamp ... />\<close> gives nothing for
  \<open>undefined\<close>, the number itself for 0 and the timestamp element otherwise.
\<close>

datatype ViewStamp = NoStamp | ZeroText | Timestamp nat

record ViewEl =
  view_key :: string
  view_avatar :: AvatarEl
  view_name :: string
  view_stamp :: ViewStamp

record QuoteEl =
  quote_authorTitle :: string
  quote_rawAttachment :: "AttachmentType option"
  quote_text :: string

text \<open>
  The composer as a whole: the quote preview when there is one, the composition input
  with its draft text and placeholder and the emoji button inside it, and the reaction
  trigger, with \<open>composer_reactionPicker\<close> telling whether its picker is open.
\<close>

record ComposerEl =
  composer_quote :: "QuoteEl option"
  composer_draftText :: string
  composer_placeholder :: string
  composer_reactionPicker :: bool

text \<open>
  What the modal can hold: the viewer list, the reply list (with the anchor \<open>bottom\<close>
  after its last row), the "no replies yet" text, the composer.
\<close>

datatype Content =
    ViewsList "ViewEl list"
  | RepliesList "ReplyRow list"
  | NoReplies string
  | Composer ComposerEl

text \<open>
  The child of the modal is either the tab control, with the tab selected first, the
  tabs and the function from the selected tab to the content, or the content itself.
\<close>

datatype ModalChild =
    TabsEl Tab "(Tab \<times> string) list" "Tab \<Rightarrow> Content list"
  | Fragment "Content list"

record ModalEl =
  useFocusTrap :: bool
  groupClass :: bool
  modalChild :: ModalChild

subsection \<open>Rendering\<close>

text \<open>An element that is \<open>undefined\<close> or \<open>false\<close> puts nothing into its parent.\<close>

fun children :: "'a option \<Rightarrow> 'a list" where
  "children None = []"
| "children (Some x) = [x]"

text \<open>\<open>a || b\<close> on optional elements.\<close>

fun orElse :: "'a option \<Rightarrow> 'a option \<Rightarrow> 'a option" where
  "orElse None b = b"
| "orElse (Some x) b = Some x"

text \<open>\<open>String(x)\<close> of an optional string.\<close>

fun String :: "string option \<Rightarrow> string" where
  "String None = ''undefined''"
| "String (Some s) = s"

definition composerElement :: "Externals \<Rightarrow> StoryProps \<Rightarrow> StoryState \<Rightarrow> ComposerEl option" where
  "composerElement ext p s =
     (if \<not> truthy_bool (isMyStory p) \<and> canReply p
      then Some
        \<lparr> composer_quote =
            (if \<not> truthy_bool (isGroupStory p)
             then Some \<lparr> quote_authorTitle = authorTitle p,
                         quote_rawAttachment = storyPreviewAttachment p,
                         quote_text = getStoryReplyText ext (i18n ext) (storyPreviewAttachment p) \<rparr>
             else None),
          composer_draftText = messageBodyText s,
          composer_placeholder =
            (if truthy_bool (isGroupStory p)
             then i18n ext ''StoryViewer__reply-group''
             else i18n ext ''StoryViewer__reply''),
          composer_reactionPicker = showReactionPicker s \<rparr>
      else None)"

definition replyRow :: "Externals \<Rightarrow> ReplyType \<Rightarrow> ReplyRow" where
  "replyRow ext reply =
     (if truthy_string (reactionEmoji reply)
      then Reaction
        \<lparr> reaction_key = reply_id reply,
          reaction_avatar = Avatar ext reply,
          reaction_contactNameColor = contactNameColor reply,
          reaction_contactName = conversation_title reply,
          reaction_label = i18n ext ''StoryViewsNRepliesModal__reacted'',
          reaction_timestamp = reply_timestamp reply,
          reaction_emoji = String (reactionEmoji reply) \<rparr>
      else Message
        \<lparr> message_key = reply_id reply,
          message_avatar = Avatar ext reply,
          message_doe = truthy_bool (deletedForEveryone reply),
          message_contactNameColor = contactNameColor reply,
          message_contactName = conversation_title reply,
          message_text =
            (if truthy_bool (deletedForEveryone reply)
             then i18n ext ''message--deletedForEveryone''
             else String (reply_body reply)),
          message_timestamp = reply_timestamp reply \<rparr>)"

definition repliesElement :: "Externals \<Rightarrow> StoryProps \<Rightarrow> Content option" where
  "repliesElement ext p =
     (if length (replies p) \<noteq> 0
      then Some (RepliesList (map (replyRow ext) (replies p)))
      else if truthy_bool (isGroupStory p)
      then Some (NoReplies (i18n ext ''StoryViewsNRepliesModal__no-replies''))
      else None)"

definition viewRow :: "Externals \<Rightarrow> StorySendStateType \<Rightarrow> ViewEl" where
  "viewRow ext view =
     \<lparr> view_key = recipient_id (recipient view),
       view_avatar = Avatar ext (recipient view),
       view_name = conversation_title (recipient view),
       view_stamp = (case updatedAt view of
                       None \<Rightarrow> NoStamp
                     | Some t \<Rightarrow> if t = 0 then ZeroText else Timestamp t) \<rparr>"

definition viewsElement :: "Externals \<Rightarrow> StoryProps \<Rightarrow> Content option" where
  "viewsElement ext p =
     (if length (views p) \<noteq> 0
      then Some (ViewsList (map (viewRow ext) (views p)))
      else None)"

definition tabContent :: "Externals \<Rightarrow> StoryProps \<Rightarrow> StoryState \<Rightarrow> Tab \<Rightarrow> Content list" where
  "tabContent ext p s selectedTab =
     (if selectedTab = Views then children (viewsElement ext p) else []) @
     (if selectedTab = Replies
      then children (repliesElement ext p) @
           children (map_option Composer (composerElement ext p s))
      else [])"

definition tabsElement :: "Externals \<Rightarrow> StoryProps \<Rightarrow> StoryState \<Rightarrow> ModalChild option" where
  "tabsElement ext p s =
     (if length (views p) \<noteq> 0 \<and> length (replies p) \<noteq> 0
      then Some (TabsEl Views
                   [(Views, i18n ext ''StoryViewsNRepliesModal__tab--views''),
                    (Replies, i18n ext ''StoryViewsNRepliesModal__tab--replies'')]
                   (tabContent ext p s))
      else None)"

text \<open>The component: \<open>None\<close> is the \<open>null\<close> it returns when there is nothing to show.\<close>

definition StoryViewsNRepliesModal :: "Externals \<Rightarrow> StoryProps \<Rightarrow> StoryState \<Rightarrow> ModalEl option" where
  "StoryViewsNRepliesModal ext p s =
     (if tabsElement ext p s = None \<and> viewsElement ext p = None \<and>
         repliesElement ext p = None \<and> composerElement ext p s = None
      then None
      else Some
        \<lparr> useFocusTrap = (composerElement ext p s \<noteq> None),
          groupClass = truthy_bool (isGroupStory p),
          modalChild =
            (case tabsElement ext p s of
               Some tabs \<Rightarrow> tabs
             | None \<Rightarrow>
                 Fragment
                   (children (orElse (viewsElement ext p) (repliesElement ext p)) @
                    children (map_option Composer (composerElement ext p s)))) \<rparr>)"

subsection \<open>Reading the rendered output\<close>

fun hasTabs :: "ModalEl option \<Rightarrow> bool" where
  "hasTabs None = False"
| "hasTabs (Some m) = (case modalChild m of TabsEl _ _ _ \<Rightarrow> True | Fragment _ \<Rightarrow> False)"

text \<open>
  The content on display while the tab control, if there is one, has the given tab
  selected. The tab control (\<open>Tabs\<close>, not part of these files) calls its child function
  with the selected tab.
\<close>

fun shown :: "Tab \<Rightarrow> ModalEl option \<Rightarrow> Content list" where
  "shown selectedTab None = []"
| "shown selectedTab (Some m) =
     (case modalChild m of
        TabsEl _ _ content \<Rightarrow> content selectedTab
      | Fragment cs \<Rightarrow> cs)"

text \<open>
  Modelled from the spec: the tab control \<open>Tabs\<close> is not among the source files; it
  starts with the tab named by \<open>initialSelectedTab\<close> selected. \<open>shownFirst\<close> is the content
  on display before any tab is clicked.
\<close>

fun shownFirst :: "ModalEl option \<Rightarrow> Content list" where
  "shownFirst None = []"
| "shownFirst (Some m) =
     (case modalChild m of
        TabsEl initialSelectedTab _ content \<Rightarrow> content initialSelectedTab
      | Fragment cs \<Rightarrow> cs)"

text \<open>Everything the output holds: direct content, or the content of every tab listed.\<close>

fun rendered :: "ModalEl option \<Rightarrow> Content list" where
  "rendered None = []"
| "rendered (Some m) =
     (case modalChild m of
        TabsEl _ tabs content \<Rightarrow> concat (map (\<lambda>(tab, label). content tab) tabs)
      | Fragment cs \<Rightarrow> cs)"

fun isNoReplies :: "Content \<Rightarrow> bool" where
  "isNoReplies (NoReplies _) = True"
| "isNoReplies _ = False"

fun isComposer :: "Content \<Rightarrow> bool" where
  "isComposer (Composer _) = True"
| "isComposer _ = False"

section \<open>Example inputs\<close>

text \<open>Concrete props, states and collaborators on which the properties below are run.\<close>

definition exampleLocalizer :: LocalizerType where
  "exampleLocalizer key = key"

definition exampleAvatarColor :: "string option \<Rightarrow> string" where
  "exampleAvatarColor c = (case c of None \<Rightarrow> ''A100'' | Some x \<Rightarrow> x)"

definition exampleStoryReplyText :: "LocalizerType \<Rightarrow> AttachmentType option \<Rightarrow> string" where
  "exampleStoryReplyText l a = l ''Quote__story''"

definition exampleExternals :: Externals where
  "exampleExternals =
     \<lparr> i18n = exampleLocalizer, getAvatarColor = exampleAvatarColor,
       getStoryReplyText = exampleStoryReplyText \<rparr>"

definition exampleViewer :: StorySendStateType where
  "exampleViewer =
     \<lparr> recipient =
         \<lparr> acceptedMessageRequest = Some True, avatarPath = None, color = None,
           isMe = Some False, name = Some ''Ada'', profileName = None,
           sharedGroupNames = None, conversation_title = ''Ada'',
           recipient_id = ''c1'' \<rparr>,
       updatedAt = Some 1000 \<rparr>"

definition exampleTextReply :: ReplyType where
  "exampleTextReply =
     \<lparr> acceptedMessageRequest = Some True, avatarPath = None, color = None,
       isMe = Some False, name = Some ''Bob'', profileName = None,
       sharedGroupNames = None, conversation_title = ''Bob'',
       reply_id = ''m1'', reply_body = Some ''Nice!'', contactNameColor = None,
       deletedForEveryone = None, reactionEmoji = None,
       reply_timestamp = 1001 \<rparr>"

definition exampleReactionReply :: ReplyType where
  "exampleReactionReply =
     exampleTextReply\<lparr> reply_id := ''m2'', reply_body := None,
                       reactionEmoji := Some ''<3'' \<rparr>"

definition exampleDeletedReply :: ReplyType where
  "exampleDeletedReply =
     exampleTextReply\<lparr> reply_id := ''m3'', deletedForEveryone := Some True,
                       reactionEmoji := Some [] \<rparr>"

definition exampleStoryState :: StoryState where
  "exampleStoryState =
     \<lparr> inputApiRef = True, messageBodyText = [], showReactionPicker = False \<rparr>"

text \<open>A group story of someone else, open to replies, that has been viewed but has no reply.\<close>

definition viewedGroupStory :: StoryProps where
  "viewedGroupStory =
     \<lparr> authorTitle = ''Carol'', canReply = True, isGroupStory = Some True,
       isMyStory = None, replies = [], storyPreviewAttachment = None,
       views = [exampleViewer] \<rparr>"

definition unviewedGroupStory :: StoryProps where
  "unviewedGroupStory = viewedGroupStory\<lparr> views := [] \<rparr>"

definition repliedStory :: StoryProps where
  "repliedStory =
     viewedGroupStory\<lparr> replies := [exampleTextReply, exampleReactionReply, exampleDeletedReply] \<rparr>"

definition repliedUnviewedStory :: StoryProps where
  "repliedUnviewedStory = repliedStory\<lparr> views := [] \<rparr>"

definition examplePick :: EmojiPickDataType where
  "examplePick = \<lparr> shortName = ''heart'', skinTone = None \<rparr>"

definition exampleGroupProps :: PropsType where
  "exampleGroupProps =
     \<lparr> externalAvatarPath = Some ''/avatars/group.png'', requestState = Inactive,
       externalTitle = ''Book club'' \<rparr>"

definition failingDocument :: Document where
  "failingDocument =
     \<lparr> getContext2d = True,
       decode = (\<lambda>src. Inl (Error ''The source image cannot be decoded.'')),
       canvasToArrayBuffer = (\<lambda>c. Inr [1, 2, 3]) \<rparr>"

definition workingDocument :: Document where
  "workingDocument =
     \<lparr> getContext2d = True,
       decode = (\<lambda>src. Inr (64, 64)),
       canvasToArrayBuffer = (\<lambda>c. Inr [1, 2, 3]) \<rparr>"

definition ownStory :: StoryProps where
  "ownStory = repliedStory\<lparr> isMyStory := Some True \<rparr>"

definition untouchedState :: EditState where
  "untouchedState = initialState exampleGroupProps"

definition renamedState :: EditState where
  "renamedState = setTitle ''Readers'' untouchedState"

definition clearedState :: EditState where
  "clearedState = setTitle [] untouchedState"

definition newAvatarState :: EditState where
  "newAvatarState = onAvatarChange (Some [7, 7]) untouchedState"

section \<open>Invariants of an execution\<close>

text \<open>
  Two facts about the closure of the mount effect that every step keeps: an effect that
  returned \<open>noop\<close> has no resolution in flight, and once the cleanup has run
  \<open>shouldCancel\<close> is never false again.
\<close>

definition idle_without_task :: "Instance \<Rightarrow> bool" where
  "idle_without_task i \<longleftrightarrow> (closure i = Noop \<longrightarrow> pending i = None)"

definition cancelled :: "Instance \<Rightarrow> bool" where
  "cancelled i \<longleftrightarrow> closure i \<noteq> Resolving False"

fun isSetAvatar :: "TaskCall \<Rightarrow> bool" where
  "isSetAvatar (SetAvatar _) = True"
| "isSetAvatar (LogWarn _) = False"

section \<open>Properties of EditConversationAttributesModal\<close>

lemmas example_edit_defs = exampleGroupProps_def untouchedState_def renamedState_def
  clearedState_def newAvatarState_def initialState_def setTitle_def onAvatarChange_def

text \<open>
  C1. For every props and state, the submit button is enabled exactly when the request
  state is not Active, the working title is non-empty, and the title differs from the
  external title, or the avatar dirty flag is set, or the external title or avatar path
  differs from the value captured at mount.
\<close>

theorem C1_submit_enabled_iff:
  "\<not> submitButtonDisabled (EditConversationAttributesModal localizer p s) \<longleftrightarrow>
     requestState p \<noteq> Active \<and> title s \<noteq> [] \<and>
     (title s \<noteq> externalTitle p \<or> hasAvatarChanged s \<or>
      externalTitle p \<noteq> startingTitleRef s \<or>
      externalAvatarPath p \<noteq> startingAvatarPathRef s)"
  by (auto simp: EditConversationAttributesModal_def canSubmit_def isRequestActive_def
        hasChangedExternally_def hasTitleChanged_def)

theorem C1_submit_enabled_witness:
  "\<not> submitButtonDisabled
       (EditConversationAttributesModal exampleLocalizer exampleGroupProps renamedState) \<and>
   \<not> submitButtonDisabled
       (EditConversationAttributesModal exampleLocalizer exampleGroupProps newAvatarState) \<and>
   \<not> submitButtonDisabled
       (EditConversationAttributesModal exampleLocalizer
          (exampleGroupProps\<lparr> externalAvatarPath := None \<rparr>) untouchedState) \<and>
   submitButtonDisabled
     (EditConversationAttributesModal exampleLocalizer exampleGroupProps untouchedState) \<and>
   submitButtonDisabled
     (EditConversationAttributesModal exampleLocalizer exampleGroupProps clearedState) \<and>
   submitButtonDisabled
     (EditConversationAttributesModal exampleLocalizer
        (exampleGroupProps\<lparr> requestState := Active \<rparr>) renamedState)"
  using C1_submit_enabled_iff [of exampleLocalizer exampleGroupProps renamedState]
    C1_submit_enabled_iff [of exampleLocalizer exampleGroupProps newAvatarState]
    C1_submit_enabled_iff
      [of exampleLocalizer "exampleGroupProps\<lparr> externalAvatarPath := None \<rparr>" untouchedState]
    C1_submit_enabled_iff [of exampleLocalizer exampleGroupProps untouchedState]
    C1_submit_enabled_iff [of exampleLocalizer exampleGroupProps clearedState]
    C1_submit_enabled_iff
      [of exampleLocalizer "exampleGroupProps\<lparr> requestState := Active \<rparr>" renamedState]
  by (simp add: example_edit_defs)

text \<open>
  C2. Submitting always prevents the default of the form event and calls makeRequest
  once, with a record that has the avatar field exactly when the avatar dirty flag is set
  (its value the working avatar) and the title field exactly when the working title
  differs from the external title (its value the working title).
\<close>

theorem C2_onSubmit_partial_record:
  "defaultPrevented (fst (onSubmit p s ev)) \<and>
   snd (onSubmit p s ev) =
     [\<lparr> request_avatar = (if hasAvatarChanged s then Some (avatar s) else None),
        request_title = (if title s \<noteq> externalTitle p then Some (title s) else None) \<rparr>]"
  by (simp add: onSubmit_def preventDefault_def buildRequest_def emptyRequest_def
        hasTitleChanged_def Let_def)

theorem C2_onSubmit_witness:
  "snd (onSubmit exampleGroupProps renamedState \<lparr> defaultPrevented = False \<rparr>) =
     [\<lparr> request_avatar = None, request_title = Some ''Readers'' \<rparr>] \<and>
   snd (onSubmit exampleGroupProps newAvatarState \<lparr> defaultPrevented = False \<rparr>) =
     [\<lparr> request_avatar = Some (Some [7, 7]), request_title = None \<rparr>] \<and>
   snd (onSubmit exampleGroupProps (setTitle ''Readers'' newAvatarState)
          \<lparr> defaultPrevented = False \<rparr>) =
     [\<lparr> request_avatar = Some (Some [7, 7]), request_title = Some ''Readers'' \<rparr>] \<and>
   defaultPrevented
     (fst (onSubmit exampleGroupProps renamedState \<lparr> defaultPrevented = False \<rparr>))"
  using C2_onSubmit_partial_record
      [of exampleGroupProps renamedState "\<lparr> defaultPrevented = False \<rparr>"]
    C2_onSubmit_partial_record
      [of exampleGroupProps newAvatarState "\<lparr> defaultPrevented = False \<rparr>"]
    C2_onSubmit_partial_record
      [of exampleGroupProps "setTitle ''Readers'' newAvatarState"
          "\<lparr> defaultPrevented = False \<rparr>"]
  by (simp add: example_edit_defs)

subsection \<open>The avatar resolution\<close>

lemma idle_mount: "idle_without_task (mount p)"
  by (simp add: idle_without_task_def mount_def Let_def)

lemma settle_closure: "closure (settle doc i) = closure i"
  by (simp add: settle_def split: option.splits sum.splits)

lemma settle_pending: "pending (settle doc i) = None"
  by (simp add: settle_def split: option.splits sum.splits)

lemma idle_step: "idle_without_task i \<Longrightarrow> idle_without_task (step doc i a)"
  by (cases a)
     (auto simp: idle_without_task_def unmount_def settle_closure settle_pending
           split: EffectClosure.splits)

lemma cancelled_step: "cancelled i \<Longrightarrow> cancelled (step doc i a)"
  by (cases a) (auto simp: cancelled_def unmount_def settle_closure split: EffectClosure.splits)

lemma cancelled_unmount: "cancelled (unmount i)"
  by (simp add: cancelled_def unmount_def split: EffectClosure.splits)

lemma idle_foldl: "idle_without_task i \<Longrightarrow> idle_without_task (foldl (step doc) i as)"
  by (induction as arbitrary: i) (simp_all add: idle_step)

lemma cancelled_foldl: "cancelled i \<Longrightarrow> cancelled (foldl (step doc) i as)"
  by (induction as arbitrary: i) (simp_all add: cancelled_step)

lemma idle_run: "idle_without_task (run doc p as)"
  unfolding run_def by (rule idle_foldl) (rule idle_mount)

lemma cancelled_run: "cancelled (run doc p (before @ Unmount # after))"
  unfolding run_def by (simp add: cancelled_foldl cancelled_unmount)

lemma run_snoc: "run doc p (as @ [a]) = step doc (run doc p as) a"
  by (simp add: run_def)

lemma settle_cancelled:
  assumes "idle_without_task i" and "cancelled i"
  shows "state (settle doc i) = state i \<and>
         filter isSetAvatar (calls (settle doc i)) = filter isSetAvatar (calls i)"
proof (cases "pending i")
  case None
  then show ?thesis by (simp add: settle_def)
next
  case (Some path)
  from assms have "closure i = Resolving True"
    using Some by (cases "closure i") (auto simp: idle_without_task_def cancelled_def)
  with Some show ?thesis
    by (simp add: settle_def split: sum.splits)
qed

text \<open>
  C8. In every execution in which the component is unmounted before the resolution
  settles, the step in which it settles leaves the component state as it was and makes no
  call to setAvatar, whatever happened before the unmount and between the unmount and
  that step, and whether the resolution fulfils or rejects. The step ends normally:
  \<open>settle\<close> has no error result.
\<close>

theorem C8_no_update_after_unmount:
  "state (run doc p ((before @ Unmount # after) @ [Settle])) =
     state (run doc p (before @ Unmount # after)) \<and>
   filter isSetAvatar (calls (run doc p ((before @ Unmount # after) @ [Settle]))) =
     filter isSetAvatar (calls (run doc p (before @ Unmount # after)))"
  unfolding run_snoc step.simps
  by (rule settle_cancelled) (rule idle_run, rule cancelled_run)

theorem C8_no_update_witness:
  "pending (run workingDocument exampleGroupProps [TitleChange ''Readers'', Unmount]) =
     Some ''/avatars/group.png'' \<and>
   state (run workingDocument exampleGroupProps [TitleChange ''Readers'', Unmount, Settle]) =
     renamedState \<and>
   filter isSetAvatar
     (calls (run workingDocument exampleGroupProps [TitleChange ''Readers'', Unmount, Settle])) =
     []"
  using C8_no_update_after_unmount
    [of workingDocument exampleGroupProps "[TitleChange ''Readers'']" "[]"]
  by (simp add: run_def mount_def unmount_def Let_def example_edit_defs)

text \<open>
  C9. When the resolution in flight fails, because the canvas gives no 2d context or
  because decoding the image is rejected, the step in which it settles logs one warning
  with the error's message and changes nothing else: the component state, and so the
  working avatar, is what it was, and the step ends normally.
\<close>

theorem C9_failure_logged_and_ignored:
  assumes "pending i = Some path"
    and "\<not> getContext2d doc \<or> (\<exists>e. decode doc path = Inl e)"
  shows "\<exists>err. imagePathToArrayBuffer doc path = Inl err \<and>
           settle doc i = i\<lparr> calls := calls i @ [LogWarn (warning err)], pending := None \<rparr> \<and>
           state (settle doc i) = state i \<and>
           avatar (state (settle doc i)) = avatar (state i)"
proof -
  have "\<exists>err. imagePathToArrayBuffer doc path = Inl err"
    using assms(2) by (cases "getContext2d doc") (auto simp: imagePathToArrayBuffer_def)
  then obtain err where "imagePathToArrayBuffer doc path = Inl err" ..
  with assms(1) show ?thesis
    by (simp add: settle_def)
qed

theorem C9_failure_witness:
  "state (settle failingDocument (mount exampleGroupProps)) = untouchedState \<and>
   avatar (state (settle failingDocument (mount exampleGroupProps))) =
     Some TEMPORARY_AVATAR_VALUE \<and>
   calls (settle failingDocument (mount exampleGroupProps)) =
     [LogWarn (warning (Error ''The source image cannot be decoded.''))]"
  using C9_failure_logged_and_ignored
    [of "mount exampleGroupProps" "''/avatars/group.png''" failingDocument]
  by (auto simp: mount_def failingDocument_def imagePathToArrayBuffer_def Let_def
        example_edit_defs)

section \<open>Properties of StoryViewsNRepliesModal\<close>

lemmas render_defs = StoryViewsNRepliesModal_def tabsElement_def viewsElement_def
  repliesElement_def composerElement_def tabContent_def

lemmas example_story_defs = viewedGroupStory_def unviewedGroupStory_def repliedStory_def
  repliedUnviewedStory_def ownStory_def

text \<open>
  C3. The tab control is rendered exactly when both the reply collection and the viewer
  collection are non-empty. When only the viewers are non-empty the modal holds the
  viewer list, and when only the replies are non-empty the reply list, directly, with no
  tab control (followed by the composer when there is one).
\<close>

theorem C3_tabs_iff_both_nonempty:
  "(hasTabs (StoryViewsNRepliesModal ext p s) \<longleftrightarrow> replies p \<noteq> [] \<and> views p \<noteq> []) \<and>
   (views p \<noteq> [] \<and> replies p = [] \<longrightarrow>
      map_option modalChild (StoryViewsNRepliesModal ext p s) =
        Some (Fragment (ViewsList (map (viewRow ext) (views p)) #
                        children (map_option Composer (composerElement ext p s))))) \<and>
   (replies p \<noteq> [] \<and> views p = [] \<longrightarrow>
      map_option modalChild (StoryViewsNRepliesModal ext p s) =
        Some (Fragment (RepliesList (map (replyRow ext) (replies p)) #
                        children (map_option Composer (composerElement ext p s)))))"
  by (simp add: StoryViewsNRepliesModal_def tabsElement_def viewsElement_def repliesElement_def)

theorem C3_tabs_witness:
  "\<not> hasTabs (StoryViewsNRepliesModal exampleExternals viewedGroupStory exampleStoryState) \<and>
   hasTabs (StoryViewsNRepliesModal exampleExternals repliedStory exampleStoryState) \<and>
   map_option modalChild
     (StoryViewsNRepliesModal exampleExternals viewedGroupStory exampleStoryState) =
     Some (Fragment
       (ViewsList [viewRow exampleExternals exampleViewer] #
        children (map_option Composer
          (composerElement exampleExternals viewedGroupStory exampleStoryState)))) \<and>
   map_option modalChild
     (StoryViewsNRepliesModal exampleExternals repliedUnviewedStory exampleStoryState) =
     Some (Fragment
       (RepliesList (map (replyRow exampleExternals)
                       [exampleTextReply, exampleReactionReply, exampleDeletedReply]) #
        children (map_option Composer
          (composerElement exampleExternals repliedUnviewedStory exampleStoryState))))"
  using C3_tabs_iff_both_nonempty [of exampleExternals viewedGroupStory exampleStoryState]
    C3_tabs_iff_both_nonempty [of exampleExternals repliedStory exampleStoryState]
    C3_tabs_iff_both_nonempty [of exampleExternals repliedUnviewedStory exampleStoryState]
  by (simp add: example_story_defs)

text \<open>
  C4, as stated, fails: a group story without replies that has been viewed renders the
  viewer list, and the "no replies yet" text is nowhere in the output.
\<close>

theorem C4_placeholder_counterexample:
  "isGroupStory viewedGroupStory = Some True \<and> replies viewedGroupStory = [] \<and>
   length (filter isNoReplies
     (rendered (StoryViewsNRepliesModal exampleExternals viewedGroupStory exampleStoryState))) \<noteq> 1"
  by (simp add: render_defs viewedGroupStory_def)

text \<open>
  C4, amended. For a group story with an empty reply collection, whatever the composer
  flags and whichever tab is asked for: when the viewer collection is empty too, the
  output is the "no replies yet" text, once, followed by the composer if there is one;
  when there are viewers, \<open>viewsElement || repliesElement\<close> takes the viewer list, so the
  output is the viewer list in that place, followed by the composer if there is one, and
  holds no "no replies yet" text.
\<close>

theorem C4_placeholder_once_without_viewers:
  assumes "isGroupStory p = Some True" and "replies p = []"
  shows "filter isNoReplies (rendered (StoryViewsNRepliesModal ext p s)) =
           (if views p = [] then [NoReplies (i18n ext ''StoryViewsNRepliesModal__no-replies'')]
            else []) \<and>
         rendered (StoryViewsNRepliesModal ext p s) =
           (if views p = [] then NoReplies (i18n ext ''StoryViewsNRepliesModal__no-replies'')
            else ViewsList (map (viewRow ext) (views p))) #
           children (map_option Composer (composerElement ext p s)) \<and>
         shown selectedTab (StoryViewsNRepliesModal ext p s) =
           rendered (StoryViewsNRepliesModal ext p s)"
  using assms by (simp add: render_defs)

theorem C4_placeholder_witness:
  "filter isNoReplies
     (rendered (StoryViewsNRepliesModal exampleExternals unviewedGroupStory exampleStoryState)) =
   [NoReplies ''StoryViewsNRepliesModal__no-replies''] \<and>
   filter isNoReplies
     (rendered (StoryViewsNRepliesModal exampleExternals viewedGroupStory exampleStoryState)) =
   [] \<and>
   rendered (StoryViewsNRepliesModal exampleExternals viewedGroupStory exampleStoryState) =
     ViewsList [viewRow exampleExternals exampleViewer] #
     children (map_option Composer
       (composerElement exampleExternals viewedGroupStory exampleStoryState))"
  using C4_placeholder_once_without_viewers
      [of unviewedGroupStory exampleExternals exampleStoryState Views]
    C4_placeholder_once_without_viewers
      [of viewedGroupStory exampleExternals exampleStoryState Views]
  by (simp add: example_story_defs exampleExternals_def exampleLocalizer_def
        composerElement_def)

text \<open>
  C5, as stated, fails: a story of someone else that is open to replies and has both
  replies and viewers puts the composer into the Replies tab only, and the tab control
  starts on Views, so no composer is on display although isMyStory is not true and
  canReply is true.
\<close>

theorem C5_composer_counterexample:
  "isMyStory repliedStory \<noteq> Some True \<and> canReply repliedStory \<and>
   \<not> list_ex isComposer
       (shownFirst (StoryViewsNRepliesModal exampleExternals repliedStory exampleStoryState)) \<and>
   \<not> list_ex isComposer
       (shown Views (StoryViewsNRepliesModal exampleExternals repliedStory exampleStoryState))"
  by (simp add: render_defs example_story_defs)

text \<open>
  C5, amended. For every input and every selected tab, the composer is on display exactly
  when isMyStory is not true, canReply is true, and either there is no tab control (the
  reply or the viewer collection is empty) or the Replies tab is selected. On first
  display, where the tab control starts on Views, that is exactly when isMyStory is not
  true, canReply is true and the two collections are not both non-empty. So with
  isMyStory true or canReply false the composer never renders. When on display it is
  there once, and it is the composition input with the draft text and the placeholder of
  a group or a direct story, the reaction trigger with its picker open or closed as the
  state says, and the quote preview of the story exactly when the story is not a group
  story.
\<close>

theorem C5_composer_shown_iff:
  "(let permitted = (isMyStory p \<noteq> Some True \<and> canReply p);
        tabbed = (replies p \<noteq> [] \<and> views p \<noteq> []);
        composer = Composer
          \<lparr> composer_quote =
              (if isGroupStory p = Some True then None
               else Some \<lparr> quote_authorTitle = authorTitle p,
                           quote_rawAttachment = storyPreviewAttachment p,
                           quote_text =
                             getStoryReplyText ext (i18n ext) (storyPreviewAttachment p) \<rparr>),
            composer_draftText = messageBodyText s,
            composer_placeholder =
              (if isGroupStory p = Some True then i18n ext ''StoryViewer__reply-group''
               else i18n ext ''StoryViewer__reply''),
            composer_reactionPicker = showReactionPicker s \<rparr>
    in filter isComposer (shown selectedTab (StoryViewsNRepliesModal ext p s)) =
         (if permitted \<and> (tabbed \<longrightarrow> selectedTab = Replies) then [composer] else []) \<and>
       filter isComposer (shownFirst (StoryViewsNRepliesModal ext p s)) =
         (if permitted \<and> \<not> tabbed then [composer] else []))"
  by (cases "isMyStory p"; cases "isGroupStory p"; cases selectedTab)
     (simp_all add: render_defs Let_def)

theorem C5_composer_witness:
  "filter isComposer
     (shown Replies (StoryViewsNRepliesModal exampleExternals repliedStory exampleStoryState)) =
     [Composer \<lparr> composer_quote = None, composer_draftText = [],
                 composer_placeholder = ''StoryViewer__reply-group'',
                 composer_reactionPicker = False \<rparr>] \<and>
   filter isComposer
     (shown Views (StoryViewsNRepliesModal exampleExternals repliedStory exampleStoryState)) =
     [] \<and>
   filter isComposer
     (shownFirst (StoryViewsNRepliesModal exampleExternals repliedStory exampleStoryState)) =
     [] \<and>
   filter isComposer
     (shownFirst
        (StoryViewsNRepliesModal exampleExternals
           (repliedUnviewedStory\<lparr> isGroupStory := None \<rparr>) exampleStoryState)) =
     [Composer \<lparr> composer_quote =
                   Some \<lparr> quote_authorTitle = ''Carol'', quote_rawAttachment = None,
                          quote_text = ''Quote__story'' \<rparr>,
                 composer_draftText = [],
                 composer_placeholder = ''StoryViewer__reply'',
                 composer_reactionPicker = False \<rparr>] \<and>
   filter isComposer
     (shown Replies (StoryViewsNRepliesModal exampleExternals ownStory exampleStoryState)) =
     [] \<and>
   filter isComposer
     (shownFirst
        (StoryViewsNRepliesModal exampleExternals
           (unviewedGroupStory\<lparr> canReply := False \<rparr>) exampleStoryState)) =
     []"
  using C5_composer_shown_iff [of repliedStory exampleExternals exampleStoryState Replies]
    C5_composer_shown_iff [of repliedStory exampleExternals exampleStoryState Views]
    C5_composer_shown_iff
      [of "repliedUnviewedStory\<lparr> isGroupStory := None \<rparr>" exampleExternals
          exampleStoryState Replies]
    C5_composer_shown_iff [of ownStory exampleExternals exampleStoryState Replies]
    C5_composer_shown_iff
      [of "unviewedGroupStory\<lparr> canReply := False \<rparr>" exampleExternals
          exampleStoryState Views]
  by (simp add: example_story_defs exampleStoryState_def exampleExternals_def
        exampleLocalizer_def exampleStoryReplyText_def Let_def)

lemma replyRow_reaction:
  "truthy_string (reactionEmoji r) \<Longrightarrow>
   \<exists>el. replyRow ext r = Reaction el \<and> reaction_key el = reply_id r \<and>
        Some (reaction_emoji el) = reactionEmoji r \<and>
        reaction_label el = i18n ext ''StoryViewsNRepliesModal__reacted''"
  by (cases "reactionEmoji r") (simp_all add: replyRow_def)

lemma replyRow_message:
  "\<not> truthy_string (reactionEmoji r) \<Longrightarrow>
   \<exists>el. replyRow ext r = Message el \<and> message_key el = reply_id r \<and>
        message_doe el = (deletedForEveryone r = Some True) \<and>
        message_text el = (if deletedForEveryone r = Some True
                           then i18n ext ''message--deletedForEveryone''
                           else String (reply_body r))"
  by (cases "deletedForEveryone r") (simp_all add: replyRow_def)

text \<open>
  C6. For a non-empty reply collection the reply list has one row per reply, in the order
  of the collection: the row at each position is made from the reply at that position. A
  reply whose reactionEmoji is a non-empty string gives a reaction row with that emoji
  and the "reacted" label. Any other reply gives a message row, which carries the marker
  and the "deleted" text when deletedForEveryone is true and the body text otherwise. The
  list is what the modal shows for replies.
\<close>

theorem C6_rows_in_order:
  assumes "replies p \<noteq> []"
  shows "\<exists>rows. repliesElement ext p = Some (RepliesList rows) \<and>
           length rows = length (replies p) \<and>
           (\<forall>k < length rows.
              (truthy_string (reactionEmoji (replies p ! k)) \<longrightarrow>
                 (\<exists>el. rows ! k = Reaction el \<and>
                       reaction_key el = reply_id (replies p ! k) \<and>
                       Some (reaction_emoji el) = reactionEmoji (replies p ! k) \<and>
                       reaction_label el = i18n ext ''StoryViewsNRepliesModal__reacted'')) \<and>
              (\<not> truthy_string (reactionEmoji (replies p ! k)) \<longrightarrow>
                 (\<exists>el. rows ! k = Message el \<and>
                       message_key el = reply_id (replies p ! k) \<and>
                       message_doe el = (deletedForEveryone (replies p ! k) = Some True) \<and>
                       message_text el =
                         (if deletedForEveryone (replies p ! k) = Some True
                          then i18n ext ''message--deletedForEveryone''
                          else String (reply_body (replies p ! k)))))) \<and>
           RepliesList rows \<in> set (shown Replies (StoryViewsNRepliesModal ext p s))"
proof -
  let ?rows = "map (replyRow ext) (replies p)"
  have el: "repliesElement ext p = Some (RepliesList ?rows)"
    using assms by (simp add: repliesElement_def)
  have sh: "RepliesList ?rows \<in> set (shown Replies (StoryViewsNRepliesModal ext p s))"
    using assms by (simp add: render_defs)
  have row: "\<forall>k < length ?rows.
      (truthy_string (reactionEmoji (replies p ! k)) \<longrightarrow>
         (\<exists>el. ?rows ! k = Reaction el \<and>
               reaction_key el = reply_id (replies p ! k) \<and>
               Some (reaction_emoji el) = reactionEmoji (replies p ! k) \<and>
               reaction_label el = i18n ext ''StoryViewsNRepliesModal__reacted'')) \<and>
      (\<not> truthy_string (reactionEmoji (replies p ! k)) \<longrightarrow>
         (\<exists>el. ?rows ! k = Message el \<and>
               message_key el = reply_id (replies p ! k) \<and>
               message_doe el = (deletedForEveryone (replies p ! k) = Some True) \<and>
               message_text el =
                 (if deletedForEveryone (replies p ! k) = Some True
                  then i18n ext ''message--deletedForEveryone''
                  else String (reply_body (replies p ! k)))))"
    using replyRow_reaction replyRow_message by simp
  show ?thesis
    using el sh row by (intro exI [of _ ?rows]) simp
qed

lemmas example_reply_defs = exampleTextReply_def exampleReactionReply_def exampleDeletedReply_def

theorem C6_rows_witness:
  "\<exists>rows. repliesElement exampleExternals repliedStory = Some (RepliesList rows) \<and>
      length rows = 3 \<and>
      (\<exists>el. rows ! 0 = Message el \<and> message_key el = ''m1'' \<and> \<not> message_doe el \<and>
            message_text el = ''Nice!'') \<and>
      (\<exists>el. rows ! 1 = Reaction el \<and> reaction_key el = ''m2'' \<and> reaction_emoji el = ''<3'') \<and>
      (\<exists>el. rows ! 2 = Message el \<and> message_key el = ''m3'' \<and> message_doe el \<and>
            message_text el = ''message--deletedForEveryone'')"
proof -
  have ne: "replies repliedStory \<noteq> []"
    by (simp add: example_story_defs)
  from C6_rows_in_order [OF ne, of exampleExternals exampleStoryState]
  obtain rows where el: "repliesElement exampleExternals repliedStory = Some (RepliesList rows)"
    and len: "length rows = length (replies repliedStory)"
    and row: "\<And>k. k < length rows \<Longrightarrow>
      (truthy_string (reactionEmoji (replies repliedStory ! k)) \<longrightarrow>
         (\<exists>el. rows ! k = Reaction el \<and>
               reaction_key el = reply_id (replies repliedStory ! k) \<and>
               Some (reaction_emoji el) = reactionEmoji (replies repliedStory ! k) \<and>
               reaction_label el = i18n exampleExternals ''StoryViewsNRepliesModal__reacted'')) \<and>
      (\<not> truthy_string (reactionEmoji (replies repliedStory ! k)) \<longrightarrow>
         (\<exists>el. rows ! k = Message el \<and>
               message_key el = reply_id (replies repliedStory ! k) \<and>
               message_doe el = (deletedForEveryone (replies repliedStory ! k) = Some True) \<and>
               message_text el =
                 (if deletedForEveryone (replies repliedStory ! k) = Some True
                  then i18n exampleExternals ''message--deletedForEveryone''
                  else String (reply_body (replies repliedStory ! k)))))"
    by blast
  have len3: "length rows = 3"
    using len by (simp add: example_story_defs)
  have r0: "\<exists>el. rows ! 0 = Message el \<and> message_key el = ''m1'' \<and> \<not> message_doe el \<and>
            message_text el = ''Nice!''"
    using row [of 0] len3 by (auto simp: example_story_defs example_reply_defs)
  have r1: "\<exists>el. rows ! 1 = Reaction el \<and> reaction_key el = ''m2'' \<and> reaction_emoji el = ''<3''"
    using row [of 1] len3 by (auto simp: example_story_defs example_reply_defs)
  have r2: "\<exists>el. rows ! 2 = Message el \<and> message_key el = ''m3'' \<and> message_doe el \<and>
            message_text el = ''message--deletedForEveryone''"
    using row [of 2] len3
    by (auto simp: example_story_defs example_reply_defs exampleExternals_def exampleLocalizer_def)
  show ?thesis
    using el len3 r0 r1 r2 by blast
qed

text \<open>
  C7. Picking an emoji makes a call to insertEmoji of the input API exactly when it
  makes a call to onUseEmoji, each at most once and with the emoji picked: both happen,
  in this order, when the ref holds the input API, and neither happens otherwise.
\<close>

theorem C7_insertEmoji_pairs_calls:
  "count_list (insertEmoji s e) (InputApi_insertEmoji e') =
     count_list (insertEmoji s e) (OnUseEmoji e') \<and>
   count_list (insertEmoji s e) (OnUseEmoji e') \<le> 1 \<and>
   (inputApiRef s \<longrightarrow> insertEmoji s e = [InputApi_insertEmoji e, OnUseEmoji e]) \<and>
   (\<not> inputApiRef s \<longrightarrow> insertEmoji s e = [])"
  by (simp add: insertEmoji_def)

theorem C7_insertEmoji_witness:
  "insertEmoji exampleStoryState examplePick =
     [InputApi_insertEmoji examplePick, OnUseEmoji examplePick] \<and>
   count_list (insertEmoji exampleStoryState examplePick) (InputApi_insertEmoji examplePick) = 1 \<and>
   count_list (insertEmoji exampleStoryState examplePick) (OnUseEmoji examplePick) = 1"
  using C7_insertEmoji_pairs_calls [of exampleStoryState examplePick examplePick]
  by (simp add: exampleStoryState_def)

text \<open>
  C10. Whenever the modal holds the tab control, the tab selected first is Views, and the
  content on display first is the viewer list alone: no reply list and no composer.
\<close>

theorem C10_views_tab_first:
  assumes "hasTabs (StoryViewsNRepliesModal ext p s)"
  shows "\<exists>tabs content.
           map_option modalChild (StoryViewsNRepliesModal ext p s) =
             Some (TabsEl Views tabs content) \<and>
           shownFirst (StoryViewsNRepliesModal ext p s) =
             [ViewsList (map (viewRow ext) (views p))]"
  using assms by (auto simp: render_defs split: if_splits)

theorem C10_views_tab_witness:
  "hasTabs (StoryViewsNRepliesModal exampleExternals repliedStory exampleStoryState) \<and>
   shownFirst (StoryViewsNRepliesModal exampleExternals repliedStory exampleStoryState) =
     [ViewsList [viewRow exampleExternals exampleViewer]]"
  using C10_views_tab_first [of exampleExternals repliedStory exampleStoryState]
  by (simp add: render_defs example_story_defs)

end
